theory Spec2Isabelle
  imports Complex_Main "HOL-Library.Char_ord" "HOL-Library.List_Lexorder"
begin

section \<open>Tables\<close>

text \<open>
  A pandas DataFrame is modelled as an ordered list of named columns. A column is either
  numeric (int64/float64: the cells are reals, a missing cell NaN is \<open>None\<close>) or textual
  (object/category: the cells are strings, a missing cell is \<open>None\<close>). Floating-point
  arithmetic is idealised as exact arithmetic on reals; console output (\<open>print\<close>) is not
  part of the model. Exceptions are values of type \<open>error\<close>, returned as \<open>Inl\<close>.
\<close>

datatype column = NumCol "real option list" | StrCol "string option list"

type_synonym table = "(string \<times> column) list"

datatype error = KeyError string | ValueError string | TypeError string | IndexError
  | ReadError string

fun col_len :: "column \<Rightarrow> nat" where
  "col_len (NumCol xs) = length xs"
| "col_len (StrCol xs) = length xs"

text \<open>\<open>len(df.columns)\<close> and \<open>len(df)\<close>.\<close>

definition n_columns :: "table \<Rightarrow> nat" where
  "n_columns df = length df"

definition n_rows :: "table \<Rightarrow> nat" where
  "n_rows df = (case df of [] \<Rightarrow> 0 | (n, c) # rest \<Rightarrow> col_len c)"

text \<open>
  A column is looked up by name with \<open>map_of\<close>: \<open>name in df.columns\<close> is
  \<open>map_of df name \<noteq> None\<close>, and \<open>df[name]\<close> raises a KeyError when the lookup is \<open>None\<close>.
\<close>

text \<open>\<open>df[name] = c\<close>: an existing column is replaced where it stands, a new one is appended.\<close>

fun set_column :: "table \<Rightarrow> string \<Rightarrow> column \<Rightarrow> table" where
  "set_column [] name c = [(name, c)]"
| "set_column ((m, d) # rest) name c =
     (if m = name then (m, c) # rest else (m, d) # set_column rest name c)"

section \<open>Bucketing: \<open>pd.cut\<close> with \<open>right=False, include_lowest=True\<close>\<close>

text \<open>
  \<open>bins.searchsorted(x, side='right')\<close> on increasing bin edges: the number of edges that are
  at most \<open>x\<close>.
\<close>

definition searchsorted_right :: "real list \<Rightarrow> real \<Rightarrow> nat" where
  "searchsorted_right bins x = length (filter (\<lambda>b. b \<le> x) bins)"

fun is_monotonic_increasing :: "real list \<Rightarrow> bool" where
  "is_monotonic_increasing (a # b # rest) = (a \<le> b \<and> is_monotonic_increasing (b # rest))"
| "is_monotonic_increasing _ = True"

text \<open>
  The bin index of one cell: \<open>ids = searchsorted\<close>, \<open>ids[x == bins[0]] = 1\<close> for
  \<open>include_lowest\<close>, and the cell is left unlabelled when it is missing or when the index is
  \<open>0\<close> or \<open>len(bins)\<close>; otherwise it gets \<open>labels[ids - 1]\<close>.
\<close>

definition cut_cell :: "real list \<Rightarrow> string list \<Rightarrow> real option \<Rightarrow> string option" where
  "cut_cell bins labels cell =
     (case cell of
        None \<Rightarrow> None
      | Some x \<Rightarrow>
          (let ids = (if x = hd bins then 1 else searchsorted_right bins x)
           in if ids = length bins \<or> ids = 0 then None else Some (labels ! (ids - 1))))"

text \<open>
  \<open>pd.cut(x, bins=bins, labels=labels, include_lowest=True, right=False)\<close> with the checks it
  makes on its arguments, in its order. \<open>cut_cell\<close> is only reached with non-empty bins and
  with one label per bin, so \<open>hd\<close> and \<open>!\<close> are within range there.
\<close>

definition pd_cut :: "real option list \<Rightarrow> real list \<Rightarrow> string list \<Rightarrow> error + string option list" where
  "pd_cut xs bins labels =
     (if \<not> is_monotonic_increasing bins then Inl (ValueError ''bins must increase monotonically.'')
      else if \<not> distinct bins \<and> length bins \<noteq> 2 then Inl (ValueError ''Bin edges must be unique'')
      else if bins = [] then Inl IndexError
      else if \<not> distinct labels then Inl (ValueError ''labels must be unique if ordered=True'')
      else if length labels + 1 \<noteq> length bins
        then Inl (ValueError ''Bin labels must be one fewer than the number of bin edges'')
      else Inr (map (cut_cell bins labels) xs))"

section \<open>Cleaner: age groups and quality categories\<close>

definition default_age_bins :: "real list" where
  "default_age_bins = [0, 6, 19, 41, 61, 120]"

definition default_age_labels :: "string list" where
  "default_age_labels = [''0-5 (Child)'', ''6-18 (Youth)'', ''19-40 (Young Adult)'',
     ''41-60 (Middle Age)'', ''60+ (Elderly)'']"

text \<open>
  \<open>create_age_groups(df, age_column, bins, labels, new_column_name)\<close>. The function works on
  \<open>df.copy()\<close> and returns it. A textual age column makes \<open>pd.cut\<close> raise a TypeError.
\<close>

definition create_age_groups ::
  "table \<Rightarrow> string \<Rightarrow> real list option \<Rightarrow> string list option \<Rightarrow> string \<Rightarrow> error + table" where
  "create_age_groups df age_column bins labels new_column_name =
     (let bins' = (case bins of None \<Rightarrow> default_age_bins | Some b \<Rightarrow> b);
          labels' = (case labels of None \<Rightarrow> default_age_labels | Some l \<Rightarrow> l)
      in case map_of df age_column of
           None \<Rightarrow> Inr df
         | Some (StrCol ss) \<Rightarrow> Inl (TypeError age_column)
         | Some (NumCol xs) \<Rightarrow>
             (case pd_cut xs bins' labels' of
                Inl e \<Rightarrow> Inl e
              | Inr cs \<Rightarrow> Inr (set_column df new_column_name (StrCol cs))))"

definition quality_bins :: "real list" where
  "quality_bins = [0, 41, 61, 81, 101]"

definition quality_labels :: "string list" where
  "quality_labels = [''Poor (0-40)'', ''Fair (41-60)'', ''Good (61-80)'', ''Excellent (81-100)'']"

definition create_biometric_quality_categories :: "table \<Rightarrow> string \<Rightarrow> string \<Rightarrow> error + table" where
  "create_biometric_quality_categories df quality_column new_column_name =
     (case map_of df quality_column of
        None \<Rightarrow> Inr df
      | Some (StrCol ss) \<Rightarrow> Inl (TypeError quality_column)
      | Some (NumCol xs) \<Rightarrow>
          (case pd_cut xs quality_bins quality_labels of
             Inl e \<Rightarrow> Inl e
           | Inr cs \<Rightarrow> Inr (set_column df new_column_name (StrCol cs))))"

section \<open>Cleaner: missing values\<close>

text \<open>\<open>df[col].isnull().sum()\<close>: the number of missing cells of a column.\<close>

fun missing_count :: "column \<Rightarrow> nat" where
  "missing_count (NumCol xs) = length (filter (\<lambda>x. x = None) xs)"
| "missing_count (StrCol xs) = length (filter (\<lambda>x. x = None) xs)"

text \<open>
  \<open>numpy.rint\<close> rounds to the nearest integer, a tie to the even one; \<open>.round(2)\<close> scales by
  \<open>100\<close>, rounds and scales back.
\<close>

definition rint :: "real \<Rightarrow> int" where
  "rint x =
     (let f = \<lfloor>x\<rfloor>; r = x - of_int f
      in if r < 1 / 2 then f else if 1 / 2 < r then f + 1 else if even f then f else f + 1)"

definition round2 :: "real \<Rightarrow> real" where
  "round2 x = of_int (rint (x * 100)) / 100"

text \<open>
  The table \<open>missing_stats\<close>: one row (Column, Missing_Count, Missing_Percent) per column
  with a missing cell, by falling percentage. \<open>Missing_Percent\<close> is the fraction of missing
  cells times \<open>100\<close>, rounded to two decimals. On a table without records the division
  is by zero, but then every count is \<open>0\<close> and no row is kept.
\<close>

definition missing_percent :: "table \<Rightarrow> column \<Rightarrow> real" where
  "missing_percent df c = round2 (real (missing_count c) / real (n_rows df) * 100)"

definition missing_stats :: "table \<Rightarrow> (string \<times> nat \<times> real) list" where
  "missing_stats df =
     rev (sort_key (\<lambda>(name, n, p). p)
       (filter (\<lambda>(name, n, p). 0 < n)
         (map (\<lambda>(name, c). (name, missing_count c, missing_percent df c)) df)))"

text \<open>\<open>df.dropna()\<close> keeps the records without a missing cell.\<close>

fun cell_present :: "column \<Rightarrow> nat \<Rightarrow> bool" where
  "cell_present (NumCol xs) i = (xs ! i \<noteq> None)"
| "cell_present (StrCol xs) i = (xs ! i \<noteq> None)"

fun take_rows :: "nat list \<Rightarrow> column \<Rightarrow> column" where
  "take_rows is (NumCol xs) = NumCol (map (\<lambda>i. xs ! i) is)"
| "take_rows is (StrCol xs) = StrCol (map (\<lambda>i. xs ! i) is)"

definition dropna :: "table \<Rightarrow> table" where
  "dropna df =
     (let keep = filter (\<lambda>i. list_all (\<lambda>(name, c). cell_present c i) df) [0..<n_rows df]
      in map (\<lambda>(name, c). (name, take_rows keep c)) df)"

text \<open>\<open>df.drop(columns=cols)\<close>, for names that are columns of \<open>df\<close>.\<close>

definition drop_columns :: "table \<Rightarrow> string list \<Rightarrow> table" where
  "drop_columns df cols = filter (\<lambda>(name, c). name \<notin> set cols) df"

text \<open>
  The columns that strategy \<open>drop_cols\<close> removes:
  \<open>missing_stats[missing_stats['Missing_Percent'] > threshold*100]['Column'].tolist()\<close>.
\<close>

definition cols_to_drop :: "table \<Rightarrow> real \<Rightarrow> string list" where
  "cols_to_drop df threshold =
     map fst (filter (\<lambda>(name, n, p). threshold * 100 < p) (missing_stats df))"

text \<open>
  \<open>s.mode()[0]\<close> is the smallest of the most frequent present values, \<open>'Unknown'\<close> stands in
  when the column has no present value. \<open>s.median()\<close> is the middle of the sorted present
  values (the mean of the two middle ones for an even number), NaN when there is none.
\<close>

definition present :: "'a option list \<Rightarrow> 'a list" where
  "present xs = concat (map (\<lambda>x. case x of None \<Rightarrow> [] | Some v \<Rightarrow> [v]) xs)"

definition mode_value :: "string option list \<Rightarrow> string" where
  "mode_value xs =
     (let vs = present xs; top = fold max (map (count_list vs) vs) 0
      in case sort (filter (\<lambda>v. count_list vs v = top) (remdups vs)) of
           [] \<Rightarrow> ''Unknown''
         | m # rest \<Rightarrow> m)"

definition median :: "real option list \<Rightarrow> real option" where
  "median xs =
     (let vs = sort (present xs); n = length vs
      in if n = 0 then None
         else if odd n then Some (vs ! (n div 2))
         else Some ((vs ! (n div 2 - 1) + vs ! (n div 2)) / 2))"

definition fillna :: "'a \<Rightarrow> 'a option list \<Rightarrow> 'a option list" where
  "fillna v xs = map (\<lambda>x. case x of None \<Rightarrow> Some v | Some y \<Rightarrow> Some y) xs"

text \<open>
  DataFrames are mutable objects. The store holds the frames that exist, a frame's address is
  its position; \<open>df.copy()\<close>, \<open>df.dropna()\<close> and \<open>df.drop(...)\<close> make a new frame, while
  \<open>df[col].fillna(v, inplace=True)\<close> overwrites a column of the frame it is called on.
\<close>

type_synonym store = "table list"

definition new_frame :: "store \<Rightarrow> table \<Rightarrow> store \<times> nat" where
  "new_frame h df = (h @ [df], length h)"

definition fill_mode_step :: "nat \<Rightarrow> string \<Rightarrow> store \<Rightarrow> store" where
  "fill_mode_step d col h =
     (case map_of (h ! d) col of
        Some (StrCol xs) \<Rightarrow>
          (if 0 < missing_count (StrCol xs)
           then h[d := set_column (h ! d) col (StrCol (fillna (mode_value xs) xs))]
           else h)
      | _ \<Rightarrow> h)"

definition fill_median_step :: "nat \<Rightarrow> string \<Rightarrow> store \<Rightarrow> store" where
  "fill_median_step d col h =
     (case map_of (h ! d) col of
        Some (NumCol xs) \<Rightarrow>
          (if 0 < missing_count (NumCol xs)
           then (case median xs of
                   None \<Rightarrow> h
                 | Some m \<Rightarrow> h[d := set_column (h ! d) col (NumCol (fillna m xs))])
           else h)
      | _ \<Rightarrow> h)"

fun is_text :: "column \<Rightarrow> bool" where
  "is_text (StrCol xs) = True"
| "is_text (NumCol xs) = False"

text \<open>
  \<open>handle_missing_values(df, strategy, threshold)\<close>, for the frame at address \<open>a\<close> of the
  store: the result is the store afterwards and the address of the frame that is returned.
\<close>

definition handle_missing_values :: "store \<Rightarrow> nat \<Rightarrow> string \<Rightarrow> real \<Rightarrow> store \<times> nat" where
  "handle_missing_values h a strategy threshold =
     (let (h1, d) = new_frame h (h ! a);
          df = h1 ! d
      in if missing_stats df = [] then (h1, d)
         else if strategy = ''report'' then (h1, d)
         else if strategy = ''drop_rows'' then new_frame h1 (dropna df)
         else if strategy = ''drop_cols'' then
           (if cols_to_drop df threshold \<noteq> []
            then new_frame h1 (drop_columns df (cols_to_drop df threshold))
            else (h1, d))
         else if strategy = ''fill_mode'' then
           (fold (fill_mode_step d) (map fst (filter (\<lambda>(name, c). is_text c) df)) h1, d)
         else if strategy = ''fill_median'' then
           (fold (fill_median_step d) (map fst (filter (\<lambda>(name, c). \<not> is_text c) df)) h1, d)
         else (h1, d))"

section \<open>Statistical tests: per-group z-score anomalies\<close>

text \<open>
  A grouping column may be textual or numeric; \<open>groupby\<close> only compares its cells. Records
  whose grouping cell is missing belong to no group.
\<close>

datatype cell = NumCell real | StrCell string

fun key_cells :: "column \<Rightarrow> cell option list" where
  "key_cells (NumCol xs) = map (map_option NumCell) xs"
| "key_cells (StrCol xs) = map (map_option StrCell) xs"

text \<open>The present values of the numeric column in the group of key \<open>k\<close>.\<close>

definition group_values :: "cell option list \<Rightarrow> real option list \<Rightarrow> cell \<Rightarrow> real list" where
  "group_values ks qs k = present (map snd (filter (\<lambda>(k', q). k' = Some k) (zip ks qs)))"

text \<open>
  pandas' \<open>mean\<close> and \<open>std\<close> skip missing values. The mean of no value is NaN; \<open>std\<close> is the
  sample standard deviation (\<open>ddof=1\<close>), NaN for fewer than two values.
\<close>

definition mean :: "real list \<Rightarrow> real option" where
  "mean xs = (if xs = [] then None else Some (sum_list xs / real (length xs)))"

definition std :: "real list \<Rightarrow> real option" where
  "std xs =
     (if length xs < 2 then None
      else Some (sqrt (sum_list (map (\<lambda>x. (x - sum_list xs / real (length xs))\<^sup>2) xs)
                        / real (length xs - 1))))"

text \<open>
  The z-score is a float that may be NaN or infinite: a missing operand gives NaN, and so does
  \<open>0 / 0\<close>, while a non-zero value over zero is infinite. Every comparison with NaN is false.
\<close>

datatype fval = NaN | Fin real | PosInf | NegInf

definition osub :: "real option \<Rightarrow> real option \<Rightarrow> real option" where
  "osub a b = (case (a, b) of (Some x, Some y) \<Rightarrow> Some (x - y) | _ \<Rightarrow> None)"

definition fdiv :: "real option \<Rightarrow> real option \<Rightarrow> fval" where
  "fdiv a b =
     (case (a, b) of
        (Some x, Some y) \<Rightarrow>
          (if y = 0 then (if x = 0 then NaN else if 0 < x then PosInf else NegInf)
           else Fin (x / y))
      | _ \<Rightarrow> NaN)"

fun abs_gt :: "fval \<Rightarrow> real \<Rightarrow> bool" where
  "abs_gt NaN t = False"
| "abs_gt (Fin z) t = (t < \<bar>z\<bar>)"
| "abs_gt PosInf t = True"
| "abs_gt NegInf t = True"

fun fgt :: "fval \<Rightarrow> real \<Rightarrow> bool" where
  "fgt NaN t = False"
| "fgt (Fin z) t = (t < z)"
| "fgt PosInf t = True"
| "fgt NegInf t = False"

fun flt :: "fval \<Rightarrow> real \<Rightarrow> bool" where
  "flt NaN t = False"
| "flt (Fin z) t = (z < t)"
| "flt PosInf t = False"
| "flt NegInf t = True"

text \<open>
  One record of \<open>df_merged\<close>, with the columns the function reads and writes; the other
  columns of the input are carried along unchanged. The input is taken to have no column
  named \<open>group_mean\<close> or \<open>group_std\<close> already, which the merge would rename.
\<close>

record anomaly_row =
  group_key :: cell
  quality :: "real option"
  group_mean :: "real option"
  group_std :: "real option"
  z_score :: fval
  is_anomaly :: bool
  anomaly_type :: string

text \<open>
  The label column is filled with \<open>'Normal'\<close>, then overwritten where \<open>z_score > threshold\<close>,
  then overwritten where \<open>z_score < -threshold\<close>.
\<close>

definition label_of :: "fval \<Rightarrow> real \<Rightarrow> string" where
  "label_of z threshold_std =
     (let l0 = ''Normal'';
          l1 = (if fgt z threshold_std then ''Unusually High Quality'' else l0);
          l2 = (if flt z (- threshold_std) then ''Unusually Low Quality'' else l1)
      in l2)"

definition merged_row ::
  "cell option list \<Rightarrow> real option list \<Rightarrow> real \<Rightarrow> cell \<Rightarrow> real option \<Rightarrow> anomaly_row" where
  "merged_row ks qs threshold_std k q =
     (let m = mean (group_values ks qs k);
          s = std (group_values ks qs k);
          z = fdiv (osub q m) s
      in \<lparr>group_key = k, quality = q, group_mean = m, group_std = s, z_score = z,
          is_anomaly = abs_gt z threshold_std, anomaly_type = label_of z threshold_std\<rparr>)"

text \<open>
  \<open>df.merge(group_stats, on=age_group_column)\<close> is an inner join: the records with a grouping
  cell, in their order, each with the statistics of its group.
\<close>

definition merged_rows :: "cell option list \<Rightarrow> real option list \<Rightarrow> real \<Rightarrow> anomaly_row list" where
  "merged_rows ks qs threshold_std =
     concat (map (\<lambda>(k, q). case k of None \<Rightarrow> [] | Some key \<Rightarrow> [merged_row ks qs threshold_std key q])
                 (zip ks qs))"

record anomaly_stats =
  total_records :: nat
  n_anomalies :: nat
  anomaly_rate :: "real option"
  n_unusually_high :: nat
  n_unusually_low :: nat
  stats_threshold_std :: real

definition summarise :: "anomaly_row list \<Rightarrow> real \<Rightarrow> anomaly_stats" where
  "summarise rows t =
     (let n = length (filter is_anomaly rows)
      in \<lparr>total_records = length rows,
          n_anomalies = n,
          anomaly_rate = (if rows = [] then None else Some (real n / real (length rows) * 100)),
          n_unusually_high = length (filter (\<lambda>r. anomaly_type r = ''Unusually High Quality'') rows),
          n_unusually_low = length (filter (\<lambda>r. anomaly_type r = ''Unusually Low Quality'') rows),
          stats_threshold_std = t\<rparr>)"

text \<open>
  \<open>detect_age_quality_anomalies(df, age_group_column, quality_column, threshold_std)\<close>.
  Neither column is checked for presence: \<open>groupby\<close> and the column selection raise a
  KeyError. A textual quality column has no mean.
\<close>

definition detect_age_quality_anomalies ::
  "table \<Rightarrow> string \<Rightarrow> string \<Rightarrow> real \<Rightarrow> error + anomaly_row list \<times> anomaly_stats" where
  "detect_age_quality_anomalies df age_group_column quality_column threshold_std =
     (case map_of df age_group_column of
        None \<Rightarrow> Inl (KeyError age_group_column)
      | Some kc \<Rightarrow>
          (case map_of df quality_column of
             None \<Rightarrow> Inl (KeyError quality_column)
           | Some (StrCol ss) \<Rightarrow> Inl (TypeError quality_column)
           | Some (NumCol qs) \<Rightarrow>
               (let rows = merged_rows (key_cells kc) qs threshold_std
                in Inr (rows, summarise rows threshold_std))))"

section \<open>Statistical tests: the effect size of the one-way ANOVA\<close>

text \<open>
  Python's built-in \<open>sum\<close> over floats: one NaN makes the sum NaN, the sum of nothing is \<open>0\<close>.
\<close>

fun py_sum :: "real option list \<Rightarrow> real option" where
  "py_sum [] = Some 0"
| "py_sum (x # xs) = (case (x, py_sum xs) of (Some a, Some b) \<Rightarrow> Some (a + b) | _ \<Rightarrow> None)"

text \<open>
  \<open>groups\<close>: for every grouping key of the table, the present quality values of its records
  (\<open>group[quality_column].dropna()\<close>).
\<close>

definition anova_groups :: "cell option list \<Rightarrow> real option list \<Rightarrow> real list list" where
  "anova_groups ks qs = map (group_values ks qs) (remdups (present ks))"

definition ss_between :: "cell option list \<Rightarrow> real option list \<Rightarrow> real option" where
  "ss_between ks qs =
     py_sum (map (\<lambda>g. case (mean g, mean (present qs)) of
                          (Some m, Some gm) \<Rightarrow> Some (real (length g) * (m - gm)\<^sup>2)
                        | _ \<Rightarrow> None)
                 (anova_groups ks qs))"

definition ss_total :: "real option list \<Rightarrow> real option" where
  "ss_total qs =
     py_sum (map (\<lambda>q. case (q, mean (present qs)) of
                          (Some x, Some gm) \<Rightarrow> Some ((x - gm)\<^sup>2)
                        | _ \<Rightarrow> None)
                 qs)"

text \<open>
  \<open>eta_squared = ss_between / ss_total if ss_total > 0 else 0\<close>; the comparison is false for
  NaN.
\<close>

definition eta_squared :: "real option \<Rightarrow> real option \<Rightarrow> real option" where
  "eta_squared ssb sst =
     (case sst of
        None \<Rightarrow> Some 0
      | Some t \<Rightarrow> (if 0 < t then (case ssb of None \<Rightarrow> None | Some b \<Rightarrow> Some (b / t)) else Some 0))"

text \<open>
  The entry \<open>'eta_squared'\<close> of the result of \<open>anova_test_quality_by_age\<close>. Absent columns
  raise a KeyError in \<open>groupby\<close>, and \<open>scipy.stats.f_oneway\<close> raises a TypeError when it is
  given fewer than two groups; its statistic and p-value are not modelled.
\<close>

definition anova_eta_squared :: "table \<Rightarrow> string \<Rightarrow> string \<Rightarrow> error + real option" where
  "anova_eta_squared df age_group_column quality_column =
     (case map_of df age_group_column of
        None \<Rightarrow> Inl (KeyError age_group_column)
      | Some kc \<Rightarrow>
          (case map_of df quality_column of
             None \<Rightarrow> Inl (KeyError quality_column)
           | Some (StrCol ss) \<Rightarrow> Inl (TypeError quality_column)
           | Some (NumCol qs) \<Rightarrow>
               (if length (anova_groups (key_cells kc) qs) < 2
                then Inl (TypeError ''at least two inputs are required'')
                else Inr (eta_squared (ss_between (key_cells kc) qs) (ss_total qs)))))"




abbreviation small_keys :: "cell option list" where
  "small_keys \<equiv> [Some (StrCell ''A''), Some (StrCell ''A''), Some (StrCell ''A''), Some (StrCell ''B'')]"

abbreviation small_records :: table where
  "small_records \<equiv> [(''Age_Group'', StrCol [Some ''A'', Some ''A'', Some ''A'', Some ''B'']),
      (''Biometric_Quality_Score'', NumCol [Some 1, Some 2, Some 3, Some 9])]"

section \<open>Analyzer: the age distribution\<close>



section \<open>Loader\<close>

text \<open>
  \<open>Path(file_path).name\<close> on POSIX paths: the last component, where empty components and
  \<open>.\<close> components do not count. Characters are bytes.
\<close>

fun split_on :: "char \<Rightarrow> string \<Rightarrow> string list" where
  "split_on c [] = [[]]"
| "split_on c (x # xs) =
     (if x = c then [] # split_on c xs
      else (case split_on c xs of [] \<Rightarrow> [[x]] | w # ws \<Rightarrow> (x # w) # ws))"

definition path_name :: "string \<Rightarrow> string" where
  "path_name file_path =
     (case rev (filter (\<lambda>part. part \<noteq> [] \<and> part \<noteq> ''.'') (split_on CHR ''/'' file_path)) of
        [] \<Rightarrow> []
      | part # parts \<Rightarrow> part)"

text \<open>\<open>name.rfind('.')\<close>: the last position of the character, counted from \<open>i\<close>, if any.\<close>

fun rfind :: "char \<Rightarrow> string \<Rightarrow> nat \<Rightarrow> nat option" where
  "rfind c [] i = None"
| "rfind c (x # xs) i =
     (case rfind c xs (Suc i) of Some j \<Rightarrow> Some j | None \<Rightarrow> (if x = c then Some i else None))"

text \<open>
  \<open>Path.suffix\<close>: \<open>i = name.rfind('.')\<close>, and \<open>name[i:]\<close> if \<open>0 < i < len(name) - 1\<close>, else
  the empty string.
\<close>

definition suffix :: "string \<Rightarrow> string" where
  "suffix file_path =
     (let name = path_name file_path
      in case rfind CHR ''.'' name 0 of
           None \<Rightarrow> []
         | Some i \<Rightarrow> (if 0 < i \<and> i + 1 < length name then drop i name else []))"

text \<open>\<open>str.lower\<close> on ASCII letters.\<close>

definition lower_char :: "char \<Rightarrow> char" where
  "lower_char c =
     (case map_of (zip ''ABCDEFGHIJKLMNOPQRSTUVWXYZ'' ''abcdefghijklmnopqrstuvwxyz'') c of
        None \<Rightarrow> c
      | Some l \<Rightarrow> l)"

definition lower :: "string \<Rightarrow> string" where
  "lower s = map lower_char s"

text \<open>
  \<open>load_enrolment_data(file_path, **kwargs)\<close> and \<open>load_update_data(file_path, **kwargs)\<close>.
  The pandas readers (with the keyword arguments) are parameters: a reader returns the table
  or the name of the exception it raises, which the loader does not catch; such an exception
  is reported as \<open>ReadError\<close>.
\<close>

definition from_reader :: "string + table \<Rightarrow> error + table" where
  "from_reader res = (case res of Inl e \<Rightarrow> Inl (ReadError e) | Inr df \<Rightarrow> Inr df)"

definition load_enrolment_data ::
  "(string \<Rightarrow> string + table) \<Rightarrow> (string \<Rightarrow> string + table) \<Rightarrow> string \<Rightarrow> error + table" where
  "load_enrolment_data read_csv read_excel file_path =
     (if lower (suffix file_path) = ''.csv'' then from_reader (read_csv file_path)
      else if lower (suffix file_path) \<in> set [''.xlsx'', ''.xls'']
        then from_reader (read_excel file_path)
      else Inl (ValueError (''Unsupported file format: '' @ suffix file_path)))"

definition load_update_data ::
  "(string \<Rightarrow> string + table) \<Rightarrow> (string \<Rightarrow> string + table) \<Rightarrow> string \<Rightarrow> error + table" where
  "load_update_data read_csv read_excel file_path =
     (if lower (suffix file_path) = ''.csv'' then from_reader (read_csv file_path)
      else if lower (suffix file_path) \<in> set [''.xlsx'', ''.xls'']
        then from_reader (read_excel file_path)
      else Inl (ValueError (''Unsupported file format: '' @ suffix file_path)))"

text \<open>Two readers for examples: one finds no file, one reads a table of one column.\<close>

definition reader_no_file :: "string \<Rightarrow> string + table" where
  "reader_no_file file_path = Inl ''FileNotFoundError''"

definition reader_one_column :: "string \<Rightarrow> string + table" where
  "reader_one_column file_path = Inr [(''Age'', NumCol [Some 30])]"

section \<open>Properties of the bucketing\<close>

lemma map_of_set_column: "map_of (set_column df name c) name = Some c"
  by (induction df name c rule: set_column.induct) auto

lemma pd_cut_default_age:
  "pd_cut xs default_age_bins default_age_labels =
     Inr (map (cut_cell default_age_bins default_age_labels) xs)"
  by (simp add: pd_cut_def default_age_bins_def default_age_labels_def)

lemma pd_cut_quality:
  "pd_cut xs quality_bins quality_labels = Inr (map (cut_cell quality_bins quality_labels) xs)"
  by (simp add: pd_cut_def quality_bins_def quality_labels_def)

lemma cut_cell_default_age:
  assumes "0 \<le> v" and "v < 120"
  shows "cut_cell default_age_bins default_age_labels (Some v) =
     Some (if v < 6 then ''0-5 (Child)'' else if v < 19 then ''6-18 (Youth)''
       else if v < 41 then ''19-40 (Young Adult)'' else if v < 61 then ''41-60 (Middle Age)''
       else ''60+ (Elderly)'')"
  using assms
  by (simp add: cut_cell_def searchsorted_right_def default_age_bins_def default_age_labels_def)

lemma below_five: "k < 5 \<longleftrightarrow> k = 0 \<or> k = 1 \<or> k = 2 \<or> k = 3 \<or> k = (4::nat)"
  by auto

lemma age_bin_of:
  assumes "k < 5" and "default_age_bins ! k \<le> v" and "v < default_age_bins ! Suc k"
  shows "cut_cell default_age_bins default_age_labels (Some v) = Some (default_age_labels ! k)"
proof -
  have "0 \<le> v" and "v < 120"
    using assms by (auto simp: below_five default_age_bins_def)
  then have c: "cut_cell default_age_bins default_age_labels (Some v) =
     Some (if v < 6 then ''0-5 (Child)'' else if v < 19 then ''6-18 (Youth)''
       else if v < 41 then ''19-40 (Young Adult)'' else if v < 61 then ''41-60 (Middle Age)''
       else ''60+ (Elderly)'')"
    by (rule cut_cell_default_age)
  show ?thesis
    unfolding c using assms
    by (auto simp: below_five default_age_bins_def default_age_labels_def)
qed

lemma age_bin_exists:
  assumes "0 \<le> v" and "v < 120"
  shows "\<exists>k<5. default_age_bins ! k \<le> v \<and> v < default_age_bins ! Suc k"
proof -
  consider "v < 6" | "6 \<le> v" "v < 19" | "19 \<le> v" "v < 41" | "41 \<le> v" "v < 61" | "61 \<le> v"
    by linarith
  then show ?thesis
  proof cases
    case 1 with assms show ?thesis by (intro exI [of _ 0]) (simp add: default_age_bins_def)
  next
    case 2 then show ?thesis by (intro exI [of _ 1]) (simp add: default_age_bins_def)
  next
    case 3 then show ?thesis by (intro exI [of _ 2]) (simp add: default_age_bins_def)
  next
    case 4 then show ?thesis by (intro exI [of _ 3]) (simp add: default_age_bins_def)
  next
    case 5 with assms show ?thesis by (intro exI [of _ 4]) (simp add: default_age_bins_def)
  qed
qed

lemma age_bin_unique:
  assumes "k < 5" and "default_age_bins ! k \<le> v" and "v < default_age_bins ! Suc k"
    and "j < 5" and "default_age_bins ! j \<le> v" and "v < default_age_bins ! Suc j"
  shows "j = k"
  using assms by (auto simp: below_five default_age_bins_def)

text \<open>
  C1. With the default bins \<open>[0, 6, 19, 41, 61, 120]\<close>, every record whose age lies in
  \<open>[0, 120)\<close> gets exactly one of the five labels in the new column: there is exactly one bin
  \<open>k\<close> whose lower edge is at most the age and whose upper edge is above it, the record's
  label is the label of that bin, and it is the only one of the five labels that the record
  carries. The lower edge is inclusive and the upper edge exclusive, so that the age \<open>6\<close> is
  a \<open>'6-18 (Youth)'\<close>.
\<close>

theorem create_age_groups_total:
  assumes col: "map_of df age_column = Some (NumCol xs)"
    and i: "i < length xs"
    and v: "xs ! i = Some v"
    and range: "0 \<le> v" "v < 120"
  shows "\<exists>cs. create_age_groups df age_column None None new_column_name
                 = Inr (set_column df new_column_name (StrCol cs))
            \<and> length cs = length xs
            \<and> (\<exists>!k. k < 5 \<and> default_age_bins ! k \<le> v \<and> v < default_age_bins ! Suc k
                     \<and> cs ! i = Some (default_age_labels ! k))
            \<and> (\<exists>!l. l \<in> set default_age_labels \<and> cs ! i = Some l)
            \<and> (v = 6 \<longrightarrow> cs ! i = Some ''6-18 (Youth)'')"
proof -
  let ?cs = "map (cut_cell default_age_bins default_age_labels) xs"
  have run: "create_age_groups df age_column None None new_column_name
               = Inr (set_column df new_column_name (StrCol ?cs))"
    by (simp add: create_age_groups_def col pd_cut_default_age)
  have cell: "?cs ! i = cut_cell default_age_bins default_age_labels (Some v)"
    using i v by simp
  obtain k where k: "k < 5" "default_age_bins ! k \<le> v" "v < default_age_bins ! Suc k"
    using age_bin_exists [OF range] by blast
  have lab: "?cs ! i = Some (default_age_labels ! k)"
    using cell age_bin_of [OF k] by simp
  have one_bin: "\<exists>!k. k < 5 \<and> default_age_bins ! k \<le> v \<and> v < default_age_bins ! Suc k
                     \<and> ?cs ! i = Some (default_age_labels ! k)"
    using k lab age_bin_unique by blast
  have "default_age_labels ! k \<in> set default_age_labels"
    using k(1) by (intro nth_mem) (simp add: default_age_labels_def)
  then have one_label: "\<exists>!l. l \<in> set default_age_labels \<and> ?cs ! i = Some l"
    using lab by auto
  have six: "v = 6 \<longrightarrow> ?cs ! i = Some ''6-18 (Youth)''"
    using cell by (simp add: cut_cell_default_age)
  show ?thesis
    using run one_bin one_label six by (intro exI [of _ ?cs]) simp
qed

theorem create_age_groups_total_witness:
  "\<exists>cs. create_age_groups [(''Age'', NumCol [Some 6, None, Some 120])] ''Age'' None None ''Age_Group''
           = Inr [(''Age'', NumCol [Some 6, None, Some 120]), (''Age_Group'', StrCol cs)]
        \<and> length cs = 3 \<and> cs ! 0 = Some ''6-18 (Youth)''"
  using create_age_groups_total
    [of "[(''Age'', NumCol [Some 6, None, Some 120])]" "''Age''" "[Some 6, None, Some 120]" 0 6
      "''Age_Group''"]
  by auto

text \<open>
  C7. The ages \<open>[3, 10, 25, 45, 65]\<close> are labelled, in this order, Child, Youth, Young Adult,
  Middle Age and Elderly, and the quality scores \<open>[35, 55, 75, 95]\<close> are categorised, in this
  order, Poor, Fair, Good and Excellent.
\<close>

theorem bucketing_examples:
  "create_age_groups [(''Age'', NumCol [Some 3, Some 10, Some 25, Some 45, Some 65])]
       ''Age'' None None ''Age_Group''
     = Inr [(''Age'', NumCol [Some 3, Some 10, Some 25, Some 45, Some 65]),
            (''Age_Group'', StrCol [Some ''0-5 (Child)'', Some ''6-18 (Youth)'',
               Some ''19-40 (Young Adult)'', Some ''41-60 (Middle Age)'', Some ''60+ (Elderly)''])]
   \<and> create_biometric_quality_categories
       [(''Biometric_Quality_Score'', NumCol [Some 35, Some 55, Some 75, Some 95])]
       ''Biometric_Quality_Score'' ''Quality_Category''
     = Inr [(''Biometric_Quality_Score'', NumCol [Some 35, Some 55, Some 75, Some 95]),
            (''Quality_Category'', StrCol [Some ''Poor (0-40)'', Some ''Fair (41-60)'',
               Some ''Good (61-80)'', Some ''Excellent (81-100)''])]"
  by (simp add: create_age_groups_def create_biometric_quality_categories_def
      pd_cut_def cut_cell_def searchsorted_right_def
      default_age_bins_def default_age_labels_def quality_bins_def quality_labels_def)

section \<open>Properties of the missing-value handling\<close>

lemma fill_mode_step_frame:
  "length (fill_mode_step d col h) = length h \<and> take d (fill_mode_step d col h) = take d h"
  by (simp add: fill_mode_step_def split: option.splits column.splits)

lemma fill_median_step_frame:
  "length (fill_median_step d col h) = length h \<and> take d (fill_median_step d col h) = take d h"
  by (simp add: fill_median_step_def split: option.splits column.splits)

lemma fold_frame:
  assumes "\<And>col h. length (f col h) = length h \<and> take d (f col h) = take d h"
  shows "length (fold f cols h) = length h \<and> take d (fold f cols h) = take d h"
  using assms by (induction cols arbitrary: h) auto

lemmas fold_mode_frame = fold_frame [of "fill_mode_step d" d for d, OF fill_mode_step_frame]

lemmas fold_median_frame = fold_frame [of "fill_median_step d" d for d, OF fill_median_step_frame]

text \<open>The function with its first assignment \<open>df = df.copy()\<close> carried out.\<close>

lemma handle_missing_values_unfold:
  "handle_missing_values h a strategy threshold =
     (let h1 = h @ [h ! a]; d = length h; df = h ! a
      in if missing_stats df = [] then (h1, d)
         else if strategy = ''report'' then (h1, d)
         else if strategy = ''drop_rows'' then (h1 @ [dropna df], Suc d)
         else if strategy = ''drop_cols'' then
           (if cols_to_drop df threshold \<noteq> []
            then (h1 @ [drop_columns df (cols_to_drop df threshold)], Suc d)
            else (h1, d))
         else if strategy = ''fill_mode'' then
           (fold (fill_mode_step d) (map fst (filter (\<lambda>(name, c). is_text c) df)) h1, d)
         else if strategy = ''fill_median'' then
           (fold (fill_median_step d) (map fst (filter (\<lambda>(name, c). \<not> is_text c) df)) h1, d)
         else (h1, d))"
  unfolding handle_missing_values_def new_frame_def Let_def prod.case
  by (simp only: nth_append_length length_append list.size fst_conv snd_conv) simp

lemma handle_missing_values_prefix:
  "case handle_missing_values h a strategy threshold of
     (h', r) \<Rightarrow> take (length h) h' = h \<and> length h \<le> r \<and> r < length h'"
proof -
  let ?h1 = "h @ [h ! a]"
  have m: "length (fold (fill_mode_step (length h)) cols ?h1) = Suc (length h)"
          "take (length h) (fold (fill_mode_step (length h)) cols ?h1) = h" for cols
    using fold_mode_frame [of "length h" cols ?h1] by simp_all
  have n: "length (fold (fill_median_step (length h)) cols ?h1) = Suc (length h)"
          "take (length h) (fold (fill_median_step (length h)) cols ?h1) = h" for cols
    using fold_median_frame [of "length h" cols ?h1] by simp_all
  show ?thesis
    unfolding handle_missing_values_unfold Let_def by (simp add: m n)
qed

text \<open>
  C6. Whatever the strategy and the threshold, \<open>handle_missing_values\<close> leaves every frame
  that existed before the call as it was, the frame it was given among them, and returns a
  frame that did not exist before (a copy). Under the strategy \<open>report\<close> the returned frame
  has as many records and as many columns as the frame it was given.
\<close>

theorem handle_missing_values_frame:
  assumes "a < length h"
  shows "(case handle_missing_values h a strategy threshold of
            (h', r) \<Rightarrow> take (length h) h' = h \<and> h' ! a = h ! a \<and> length h \<le> r \<and> r < length h')
         \<and> (case handle_missing_values h a ''report'' threshold of
            (h', r) \<Rightarrow> n_rows (h' ! r) = n_rows (h ! a) \<and> n_columns (h' ! r) = n_columns (h ! a))"
proof -
  obtain h' r where hr: "handle_missing_values h a strategy threshold = (h', r)"
    by (cases "handle_missing_values h a strategy threshold")
  with handle_missing_values_prefix [of h a strategy threshold]
  have p: "take (length h) h' = h" "length h \<le> r" "r < length h'" by simp_all
  have "h' ! a = take (length h) h' ! a" using assms by simp
  then have same: "h' ! a = h ! a" using p(1) by simp
  have second: "handle_missing_values h a ''report'' threshold = (h @ [h ! a], length h)"
    unfolding handle_missing_values_unfold Let_def by simp
  show ?thesis
    unfolding hr second using p same by simp
qed

theorem handle_missing_values_frame_witness:
  "(0::nat) < length [[(''a'', NumCol [None, Some 4, Some 1])]]
   \<and> (case handle_missing_values [[(''a'', NumCol [None, Some 4, Some 1])]] 0 ''fill_median'' (1 / 2) of
        (h', r) \<Rightarrow> take 1 h' = [[(''a'', NumCol [None, Some 4, Some 1])]]
          \<and> h' ! 0 = [(''a'', NumCol [None, Some 4, Some 1])] \<and> 1 \<le> r \<and> r < length h')
   \<and> (case handle_missing_values [[(''a'', NumCol [None, Some 4, Some 1])]] 0 ''report'' (1 / 2) of
        (h', r) \<Rightarrow> n_rows (h' ! r) = n_rows [(''a'', NumCol [None, Some 4, Some 1])]
          \<and> n_columns (h' ! r) = n_columns [(''a'', NumCol [None, Some 4, Some 1])])"
  using handle_missing_values_frame
    [of 0 "[[(''a'', NumCol [None, Some 4, Some 1])]]" "''fill_median''" "1 / 2"]
  by simp

text \<open>
  What strategy \<open>drop_cols\<close> removes: the columns with a missing cell whose percentage of
  missing cells, rounded to two decimals, is above the threshold times \<open>100\<close>.
\<close>

lemma cols_to_drop_iff:
  "name \<in> set (cols_to_drop df threshold) \<longleftrightarrow>
     (\<exists>c. (name, c) \<in> set df \<and> 0 < missing_count c \<and> threshold * 100 < missing_percent df c)"
  by (force simp: cols_to_drop_def missing_stats_def)

lemma missing_stats_tie:
  "missing_stats [(''a'', NumCol [None, None, Some 1]), (''b'', NumCol [Some 1, Some 2, Some 3])]
     = [(''a'', 2, 6667 / 100)]"
  by (simp add: missing_stats_def missing_percent_def round2_def rint_def n_rows_def Let_def)

text \<open>
  C2. The claim is that \<open>drop_cols\<close> removes a column exactly when its fraction of missing
  cells is strictly above the threshold, so that a column whose fraction equals the threshold
  is kept. The code compares the percentage after rounding it to two decimals. On a table of
  three records whose column \<open>a\<close> misses two cells, with threshold \<open>2/3\<close>, the fraction of
  missing cells equals the threshold, the rounded percentage \<open>66.67\<close> is above
  \<open>66.66...\<close>, and the returned frame has lost the column \<open>a\<close>.
\<close>

theorem drop_cols_drops_tie:
  "real (missing_count (NumCol [None, None, Some 1]))
     / real (n_rows [(''a'', NumCol [None, None, Some 1]), (''b'', NumCol [Some 1, Some 2, Some 3])])
     = 2 / 3
   \<and> handle_missing_values
       [[(''a'', NumCol [None, None, Some 1]), (''b'', NumCol [Some 1, Some 2, Some 3])]]
       0 ''drop_cols'' (2 / 3)
     = ([[(''a'', NumCol [None, None, Some 1]), (''b'', NumCol [Some 1, Some 2, Some 3])],
         [(''a'', NumCol [None, None, Some 1]), (''b'', NumCol [Some 1, Some 2, Some 3])],
         [(''b'', NumCol [Some 1, Some 2, Some 3])]], 2)"
proof -
  have "handle_missing_values
       [[(''a'', NumCol [None, None, Some 1]), (''b'', NumCol [Some 1, Some 2, Some 3])]]
       0 ''drop_cols'' (2 / 3)
     = ([[(''a'', NumCol [None, None, Some 1]), (''b'', NumCol [Some 1, Some 2, Some 3])],
         [(''a'', NumCol [None, None, Some 1]), (''b'', NumCol [Some 1, Some 2, Some 3])],
         [(''b'', NumCol [Some 1, Some 2, Some 3])]], 2)"
    unfolding handle_missing_values_unfold Let_def
    by (simp add: missing_stats_tie cols_to_drop_def drop_columns_def)
  then show ?thesis
    by (simp add: n_rows_def)
qed

section \<open>Properties of the z-score anomaly detection\<close>

lemma present_length: "length (present xs) \<le> length xs"
  by (induction xs) (auto simp: present_def split: option.splits)

lemma filter_zip_length:
  "length (filter (\<lambda>(k, q). P k) (zip ks qs)) \<le> length (filter P ks)"
proof (induction ks arbitrary: qs)
  case Nil
  then show ?case by simp
next
  case (Cons k ks)
  then show ?case
    by (cases qs) (auto simp: le_SucI)
qed

lemma group_values_length:
  "length (group_values ks qs k) \<le> length (filter (\<lambda>k'. k' = Some k) ks)"
  unfolding group_values_def
  using present_length [of "map snd (filter (\<lambda>(k', q). k' = Some k) (zip ks qs))"]
    filter_zip_length [of "\<lambda>k'. k' = Some k" ks qs]
  by simp

lemma merged_rows_mem:
  "r \<in> set (merged_rows ks qs t) \<Longrightarrow> \<exists>q. r = merged_row ks qs t (group_key r) q"
  by (auto simp: merged_rows_def merged_row_def Let_def split: option.splits)

lemma label_normal: "label_of NaN t = ''Normal''"
  by (simp add: label_of_def)

lemma fdiv_no_std: "fdiv a None = NaN"
  by (simp add: fdiv_def split: option.splits)

lemma singleton_row:
  assumes "length (filter (\<lambda>k'. k' = Some k) ks) = 1"
  shows "\<not> is_anomaly (merged_row ks qs t k q) \<and> anomaly_type (merged_row ks qs t k q) = ''Normal''"
proof -
  have "length (group_values ks qs k) < 2"
    using group_values_length [of ks qs k] assms by simp
  then have "std (group_values ks qs k) = None"
    by (simp add: std_def)
  then show ?thesis
    by (simp add: merged_row_def Let_def fdiv_no_std label_normal)
qed

lemma label_cases:
  "abs_gt z t \<longleftrightarrow> label_of z t \<noteq> ''Normal''"
  "label_of z t = ''Normal'' \<or> label_of z t = ''Unusually High Quality'' \<or> label_of z t = ''Unusually Low Quality''"
  by (cases z; auto simp: label_of_def)+

lemma row_flag_iff:
  "r \<in> set (merged_rows ks qs t) \<Longrightarrow> is_anomaly r \<longleftrightarrow> anomaly_type r \<noteq> ''Normal''"
  using label_cases(1) by (auto simp: merged_rows_def merged_row_def Let_def split: option.splits)

lemma row_label_range:
  "r \<in> set (merged_rows ks qs t) \<Longrightarrow>
     anomaly_type r = ''Normal'' \<or> anomaly_type r = ''Unusually High Quality''
       \<or> anomaly_type r = ''Unusually Low Quality''"
proof -
  assume "r \<in> set (merged_rows ks qs t)"
  then obtain q where "r = merged_row ks qs t (group_key r) q"
    using merged_rows_mem by blast
  then have "\<exists>z. anomaly_type r = label_of z t"
    by (metis anomaly_row.select_convs(7) merged_row_def)
  then show ?thesis
    using label_cases(2) by metis
qed

lemma count_split:
  assumes "\<And>r. r \<in> set rows \<Longrightarrow> (is_anomaly r \<longleftrightarrow> anomaly_type r \<noteq> ''Normal'')"
    and "\<And>r. r \<in> set rows \<Longrightarrow> anomaly_type r = ''Normal'' \<or> anomaly_type r = ''Unusually High Quality''
       \<or> anomaly_type r = ''Unusually Low Quality''"
  shows "length (filter is_anomaly rows) =
     length (filter (\<lambda>r. anomaly_type r = ''Unusually High Quality'') rows)
     + length (filter (\<lambda>r. anomaly_type r = ''Unusually Low Quality'') rows)"
  using assms
proof (induction rows)
  case Nil
  then show ?case by simp
next
  case (Cons r rows)
  have "anomaly_type r = ''Normal'' \<or> anomaly_type r = ''Unusually High Quality''
       \<or> anomaly_type r = ''Unusually Low Quality''"
    using Cons.prems(2) by simp
  moreover have "is_anomaly r \<longleftrightarrow> anomaly_type r \<noteq> ''Normal''"
    using Cons.prems(1) by simp
  moreover have "length (filter is_anomaly rows) =
     length (filter (\<lambda>r. anomaly_type r = ''Unusually High Quality'') rows)
     + length (filter (\<lambda>r. anomaly_type r = ''Unusually Low Quality'') rows)"
    using Cons by simp
  ultimately show ?case by auto
qed









lemma small_run:
  "detect_age_quality_anomalies small_records ''Age_Group'' ''Biometric_Quality_Score'' t
     = Inr (merged_rows small_keys [Some 1, Some 2, Some 3, Some 9] t,
            summarise (merged_rows small_keys [Some 1, Some 2, Some 3, Some 9] t) t)"
  by (simp add: detect_age_quality_anomalies_def Let_def)

lemma small_last:
  "merged_rows small_keys [Some 1, Some 2, Some 3, Some 9] t ! 3
     = merged_row small_keys [Some 1, Some 2, Some 3, Some 9] t (StrCell ''B'') (Some 9)"
  by (simp add: merged_rows_def)

lemma small_third:
  "merged_rows small_keys [Some 1, Some 2, Some 3, Some 9] t ! 2
     = merged_row small_keys [Some 1, Some 2, Some 3, Some 9] t (StrCell ''A'') (Some 3)"
  by (simp add: merged_rows_def)

lemma small_length: "length (merged_rows small_keys [Some 1, Some 2, Some 3, Some 9] t) = 4"
  by (simp add: merged_rows_def)

lemma small_third_row:
  "merged_row small_keys [Some 1, Some 2, Some 3, Some 9] t (StrCell ''A'') (Some 3)
  = \<lparr>group_key = StrCell ''A'', quality = Some 3, group_mean = Some 2, group_std = Some 1,
     z_score = Fin 1, is_anomaly = (t < 1), anomaly_type = label_of (Fin 1) t\<rparr>"
  by (simp add: merged_row_def group_values_def present_def mean_def std_def Let_def osub_def fdiv_def power2_eq_square)

text \<open>
  C3. A record that is alone in its group (no other record has its grouping cell) is not
  flagged, whatever the threshold: the standard deviation of its group is undefined, so is
  its z-score, and it keeps \<open>is_anomaly = False\<close> and the label \<open>'Normal'\<close>.
\<close>

theorem singleton_group_never_flagged:
  assumes run: "detect_age_quality_anomalies df age_group_column quality_column threshold = Inr (rows, stats)"
    and col: "map_of df age_group_column = Some kc"
    and r: "r \<in> set rows"
    and single: "length (filter (\<lambda>k. k = Some (group_key r)) (key_cells kc)) = 1"
  shows "\<not> is_anomaly r \<and> anomaly_type r = ''Normal''"
proof -
  obtain qs where rows: "rows = merged_rows (key_cells kc) qs threshold"
    using run col
    by (auto simp: detect_age_quality_anomalies_def Let_def split: option.splits column.splits)
  then obtain q where "r = merged_row (key_cells kc) qs threshold (group_key r) q"
    using r merged_rows_mem by blast
  then show ?thesis
    using singleton_row [OF single, of qs threshold q] by simp
qed

theorem singleton_group_never_flagged_witness:
  "detect_age_quality_anomalies small_records ''Age_Group'' ''Biometric_Quality_Score'' (1 / 2)
     = Inr (merged_rows small_keys [Some 1, Some 2, Some 3, Some 9] (1 / 2),
            summarise (merged_rows small_keys [Some 1, Some 2, Some 3, Some 9] (1 / 2)) (1 / 2))
   \<and> length (filter (\<lambda>k. k = Some (StrCell ''B'')) small_keys) = 1
   \<and> quality (merged_rows small_keys [Some 1, Some 2, Some 3, Some 9] (1 / 2) ! 3) = Some 9
   \<and> \<not> is_anomaly (merged_rows small_keys [Some 1, Some 2, Some 3, Some 9] (1 / 2) ! 3)
   \<and> anomaly_type (merged_rows small_keys [Some 1, Some 2, Some 3, Some 9] (1 / 2) ! 3) = ''Normal''"
proof -
  let ?rows = "merged_rows small_keys [Some 1, Some 2, Some 3, Some 9] (1 / 2)"
  have mem: "?rows ! 3 \<in> set ?rows"
    by (rule nth_mem) (simp add: small_length)
  have key: "group_key (?rows ! 3) = StrCell ''B''" and q: "quality (?rows ! 3) = Some 9"
    by (simp_all add: small_last merged_row_def Let_def)
  have single: "length (filter (\<lambda>k. k = Some (group_key (?rows ! 3)))
      (key_cells (StrCol [Some ''A'', Some ''A'', Some ''A'', Some ''B'']))) = 1"
    unfolding key by simp
  have col: "map_of small_records ''Age_Group'' = Some (StrCol [Some ''A'', Some ''A'', Some ''A'', Some ''B''])"
    by simp
  show ?thesis
    using singleton_group_never_flagged [OF small_run col mem single] small_run [of "1 / 2"] q
    by simp
qed

text \<open>
  C10. In the returned table a record is flagged exactly when its label is not \<open>'Normal'\<close>,
  and the reported number of anomalies is the number of unusually high records plus the
  number of unusually low records.
\<close>

theorem anomaly_flag_matches_label:
  assumes run: "detect_age_quality_anomalies df age_group_column quality_column threshold = Inr (rows, stats)"
  shows "(\<forall>r \<in> set rows. is_anomaly r \<longleftrightarrow> anomaly_type r \<noteq> ''Normal'')
     \<and> n_anomalies stats = n_unusually_high stats + n_unusually_low stats"
proof -
  obtain ks qs where rows: "rows = merged_rows ks qs threshold" and stats: "stats = summarise rows threshold"
    using run
    by (auto simp: detect_age_quality_anomalies_def Let_def split: option.splits column.splits)
  have a: "\<forall>r \<in> set rows. is_anomaly r \<longleftrightarrow> anomaly_type r \<noteq> ''Normal''"
    unfolding rows using row_flag_iff by blast
  have "n_anomalies stats = n_unusually_high stats + n_unusually_low stats"
    unfolding stats summarise_def Let_def
    using count_split [of rows] a row_label_range [of _ ks qs threshold] rows by simp
  with a show ?thesis by simp
qed

theorem anomaly_flag_matches_label_witness:
  "detect_age_quality_anomalies small_records ''Age_Group'' ''Biometric_Quality_Score'' (1 / 2)
     = Inr (merged_rows small_keys [Some 1, Some 2, Some 3, Some 9] (1 / 2),
            summarise (merged_rows small_keys [Some 1, Some 2, Some 3, Some 9] (1 / 2)) (1 / 2))
   \<and> is_anomaly (merged_rows small_keys [Some 1, Some 2, Some 3, Some 9] (1 / 2) ! 2)
   \<and> anomaly_type (merged_rows small_keys [Some 1, Some 2, Some 3, Some 9] (1 / 2) ! 2) \<noteq> ''Normal''
   \<and> n_anomalies (summarise (merged_rows small_keys [Some 1, Some 2, Some 3, Some 9] (1 / 2)) (1 / 2))
      = n_unusually_high (summarise (merged_rows small_keys [Some 1, Some 2, Some 3, Some 9] (1 / 2)) (1 / 2))
      + n_unusually_low (summarise (merged_rows small_keys [Some 1, Some 2, Some 3, Some 9] (1 / 2)) (1 / 2))"
proof -
  let ?rows = "merged_rows small_keys [Some 1, Some 2, Some 3, Some 9] (1 / 2)"
  have mem: "?rows ! 2 \<in> set ?rows"
    by (rule nth_mem) (simp add: small_length)
  have flagged: "is_anomaly (?rows ! 2)"
    by (simp add: small_third small_third_row)
  show ?thesis
    using anomaly_flag_matches_label [OF small_run, of "1 / 2"] mem flagged small_run [of "1 / 2"]
    by blast
qed




section \<open>Properties of the effect size\<close>

text \<open>
  When no quality score is missing, the total sum of squares is a number that is not
  negative, and the effect size is \<open>0\<close> when it is zero and the quotient otherwise.
\<close>

lemma py_sum_nonneg:
  assumes "py_sum xs = Some t" and "\<And>v. Some v \<in> set xs \<Longrightarrow> 0 \<le> v"
  shows "0 \<le> t"
  using assms
proof (induction xs arbitrary: t)
  case Nil
  then show ?case by simp
next
  case (Cons x xs)
  then obtain a b where "x = Some a" "py_sum xs = Some b" "t = a + b"
    by (auto split: option.splits)
  moreover have "0 \<le> a" using Cons.prems(2) \<open>x = Some a\<close> by simp
  moreover have "0 \<le> b" using Cons.IH [OF \<open>py_sum xs = Some b\<close>] Cons.prems(2) by simp
  ultimately show ?case by simp
qed

lemma ss_total_nonneg: "ss_total qs = Some t \<Longrightarrow> 0 \<le> t"
  unfolding ss_total_def
  by (erule py_sum_nonneg) (auto split: option.splits)

lemma eta_squared_defined:
  assumes "ss_total qs = Some t"
  shows "eta_squared ssb (ss_total qs) = (if t = 0 then Some 0 else map_option (\<lambda>b. b / t) ssb)"
  using ss_total_nonneg [OF assms] assms
  by (auto simp: eta_squared_def split: option.splits)

lemma eta_squared_undefined: "ss_total qs = None \<Longrightarrow> eta_squared ssb (ss_total qs) = Some 0"
  by (simp add: eta_squared_def)

lemma anova_groups_ex:
  "anova_groups [Some (StrCell ''A''), Some (StrCell ''A''), Some (StrCell ''B''), Some (StrCell ''B''),
       Some (StrCell ''B'')] [Some 1, Some 3, Some 5, Some 7, None] = [[1, 3], [5, 7]]"
  by (simp add: anova_groups_def group_values_def present_def)

lemma ss_between_ex:
  "ss_between [Some (StrCell ''A''), Some (StrCell ''A''), Some (StrCell ''B''), Some (StrCell ''B''),
       Some (StrCell ''B'')] [Some 1, Some 3, Some 5, Some 7, None] = Some 16"
  by (simp add: ss_between_def anova_groups_ex mean_def present_def power2_eq_square)

lemma ss_total_ex: "ss_total [Some 1, Some 3, Some 5, Some 7, None] = None"
  by (simp add: ss_total_def mean_def present_def)

lemma anova_groups_ex2:
  "anova_groups [Some (StrCell ''A''), Some (StrCell ''A''), Some (StrCell ''B''), Some (StrCell ''B'')]
       [Some 1, Some 3, Some 5, Some 7] = [[1, 3], [5, 7]]"
  by (simp add: anova_groups_def group_values_def present_def)

lemma ss_ex2:
  "ss_between [Some (StrCell ''A''), Some (StrCell ''A''), Some (StrCell ''B''), Some (StrCell ''B'')]
       [Some 1, Some 3, Some 5, Some 7] = Some 16"
  "ss_total [Some 1, Some 3, Some 5, Some 7] = Some 20"
  by (simp_all add: ss_between_def ss_total_def anova_groups_ex2 mean_def present_def power2_eq_square)

text \<open>
  C9. The claim is that the effect size is the between-group sum of squares over the total sum
  of squares unless the latter is zero. The total is taken with Python's built-in \<open>sum\<close>,
  which does not skip a missing score as \<open>mean\<close> and \<open>dropna\<close> do for the other
  quantities: one missing score makes the total NaN, the guard \<open>ss_total > 0\<close> is false, and
  the effect size is reported as \<open>0\<close>. On two groups \<open>[1, 3]\<close> and \<open>[5, 7, NaN]\<close> the
  between-group sum is \<open>16\<close> and the reported effect size is \<open>0\<close>, whereas without the
  record of the missing score it is \<open>16 / 20\<close>.
\<close>

theorem eta_squared_zero_on_missing_score:
  "anova_eta_squared
     [(''Age_Group'', StrCol [Some ''A'', Some ''A'', Some ''B'', Some ''B'', Some ''B'']),
      (''Biometric_Quality_Score'', NumCol [Some 1, Some 3, Some 5, Some 7, None])]
     ''Age_Group'' ''Biometric_Quality_Score'' = Inr (Some 0)
   \<and> ss_between [Some (StrCell ''A''), Some (StrCell ''A''), Some (StrCell ''B''), Some (StrCell ''B''),
       Some (StrCell ''B'')] [Some 1, Some 3, Some 5, Some 7, None] = Some 16
   \<and> ss_total [Some 1, Some 3, Some 5, Some 7, None] = None
   \<and> anova_eta_squared
     [(''Age_Group'', StrCol [Some ''A'', Some ''A'', Some ''B'', Some ''B'']),
      (''Biometric_Quality_Score'', NumCol [Some 1, Some 3, Some 5, Some 7])]
     ''Age_Group'' ''Biometric_Quality_Score'' = Inr (Some (4 / 5))"
  by (simp add: anova_eta_squared_def anova_groups_ex anova_groups_ex2 ss_between_ex ss_total_ex ss_ex2
      eta_squared_def)

section \<open>Absent columns\<close>




section \<open>Properties of the loader\<close>

lemma loader_cases:
  "load_enrolment_data read_csv read_excel file_path =
     (if lower (suffix file_path) = ''.csv'' then from_reader (read_csv file_path)
      else if lower (suffix file_path) = ''.xlsx'' \<or> lower (suffix file_path) = ''.xls''
        then from_reader (read_excel file_path)
      else Inl (ValueError (''Unsupported file format: '' @ suffix file_path)))"
  by (simp add: load_enrolment_data_def)

lemma from_reader_not_value_error: "from_reader res \<noteq> Inl (ValueError msg)"
  by (simp add: from_reader_def split: sum.splits)

lemma load_update_data_same:
  "load_update_data read_csv read_excel file_path = load_enrolment_data read_csv read_excel file_path"
  by (simp add: load_update_data_def load_enrolment_data_def)

lemma suffix_examples:
  "suffix ''data/raw/Enrolment.CSV'' = ''.CSV''" "suffix ''data/enrolment.csv'' = ''.csv''"
  "suffix ''notes.txt'' = ''.txt''"
  by (simp_all add: suffix_def path_name_def)

lemma lower_examples:
  "lower ''.CSV'' = ''.csv''" "lower ''.csv'' = ''.csv''" "lower ''.txt'' = ''.txt''"
  by (simp_all add: lower_def lower_char_def)

text \<open>
  C8, as amended. The loader raises the unsupported-format ValueError exactly when the
  extension of the path, in lower case, is none of \<open>.csv\<close>, \<open>.xlsx\<close> and \<open>.xls\<close>, and
  then with the message that names the extension. For \<open>.csv\<close> the result is that of the
  CSV reader and for \<open>.xlsx\<close> and \<open>.xls\<close> that of the Excel reader, its table or its
  exception. \<open>load_update_data\<close> behaves as \<open>load_enrolment_data\<close>.
\<close>

theorem unsupported_format_iff:
  "((\<exists>msg. load_enrolment_data read_csv read_excel file_path = Inl (ValueError msg))
      \<longleftrightarrow> lower (suffix file_path) \<notin> {''.csv'', ''.xlsx'', ''.xls''})
   \<and> (lower (suffix file_path) \<notin> {''.csv'', ''.xlsx'', ''.xls''} \<longrightarrow>
        load_enrolment_data read_csv read_excel file_path
          = Inl (ValueError (''Unsupported file format: '' @ suffix file_path)))
   \<and> (lower (suffix file_path) = ''.csv'' \<longrightarrow>
        load_enrolment_data read_csv read_excel file_path = from_reader (read_csv file_path))
   \<and> (lower (suffix file_path) \<in> {''.xlsx'', ''.xls''} \<longrightarrow>
        load_enrolment_data read_csv read_excel file_path = from_reader (read_excel file_path))
   \<and> load_update_data read_csv read_excel file_path
        = load_enrolment_data read_csv read_excel file_path"
  using from_reader_not_value_error
  by (auto simp: loader_cases load_update_data_same)

theorem unsupported_format_iff_witness:
  "lower (suffix ''data/raw/Enrolment.CSV'') = ''.csv''
   \<and> load_enrolment_data reader_one_column reader_no_file ''data/raw/Enrolment.CSV''
       = Inr [(''Age'', NumCol [Some 30])]
   \<and> lower (suffix ''notes.txt'') \<notin> {''.csv'', ''.xlsx'', ''.xls''}
   \<and> load_update_data reader_one_column reader_one_column ''notes.txt''
       = Inl (ValueError ''Unsupported file format: .txt'')"
  using unsupported_format_iff [of reader_one_column reader_no_file "''data/raw/Enrolment.CSV''"]
    unsupported_format_iff [of reader_one_column reader_one_column "''notes.txt''"]
  by (simp add: suffix_examples lower_examples from_reader_def reader_one_column_def)

text \<open>
  C8 as stated fails in the direction "a hard failure only for an unsupported extension": for
  a \<open>.csv\<close> path that the reader cannot open, the reader's exception reaches the caller.
\<close>

theorem reader_failure_counterexample:
  "lower (suffix ''data/enrolment.csv'') = ''.csv''
   \<and> load_enrolment_data reader_no_file reader_no_file ''data/enrolment.csv''
       = Inl (ReadError ''FileNotFoundError'')"
  by (simp add: load_enrolment_data_def suffix_examples lower_examples from_reader_def reader_no_file_def)

end
